theory Spec2Isabelle
  imports Main
begin

section \<open>Values shared by the embedded modules\<close>

text \<open>
  A JavaScript exception is a value. Two kinds matter here: whatever the remote store's
  client rejects with (opaque, identified by its message), and the \<open>ENOENT\<close> error that
  Node's \<open>fs.unlinkSync\<close> throws for a path that names no file (a \<open>TypeError\<close> for
  an argument that is no path). \<open>JwtError\<close> is what \<open>jwt.sign\<close> may throw.
\<close>

datatype js_error = StoreError string | ENOENT string | TypeError string | JwtError string

text \<open>
  An async function settles its promise: \<open>Returned v\<close> is a promise fulfilled with
  \<open>v\<close>, \<open>Thrown e\<close> a promise rejected with \<open>e\<close> (an exception surfaced to the caller).
\<close>

datatype 'a completion = Returned 'a | Thrown js_error

section \<open>utils/cloudinary.js\<close>

text \<open>The options object of the upload call, \<open>{ resource_type : "auto" }\<close>.\<close>

record upload_options =
  resource_type :: string

text \<open>
  The store's response. The code reads only \<open>response.url\<close>; the public identifier is
  the other field the store always reports.
\<close>

record upload_response =
  url :: string
  public_id :: string

text \<open>
  The remote store's upload capability, \<open>cloudinary.uploader.upload\<close>: opaque, it either
  resolves with a response (\<open>Inr\<close>) or rejects with an error (\<open>Inl\<close>).
\<close>

type_synonym uploader = "string \<Rightarrow> upload_options \<Rightarrow> js_error + upload_response"

text \<open>Every observable action of the function, in the order it happens.\<close>

datatype effect =
    Upload string upload_options
  | ConsoleLog string string
  | Unlink string

text \<open>
  The world the function runs in: the paths of the files on the local disk and the trace
  of the actions performed so far. The await of the upload is one step: nothing else
  changes the local disk during a call.
\<close>

record world =
  files :: "string set"
  trace :: "effect list"

definition emit :: "effect \<Rightarrow> world \<Rightarrow> world" where
  "emit e w = w\<lparr>trace := trace w @ [e]\<rparr>"

text \<open>
  \<open>fs.unlinkSync(path)\<close>: removes the file, throws \<open>ENOENT\<close> when there is no
  file at the path, and a \<open>TypeError\<close> when the argument is no path at all.
\<close>

definition unlinkSync :: "string option \<Rightarrow> world \<Rightarrow> unit completion \<times> world" where
  "unlinkSync path w =
     (case path of
        None \<Rightarrow> (Thrown (TypeError ''path''), w)
      | Some p \<Rightarrow>
          let w' = emit (Unlink p) w
          in if p \<in> files w
             then (Returned (), w'\<lparr>files := files w - {p}\<rparr>)
             else (Thrown (ENOENT p), w'))"

text \<open>
  The body of the \<open>try\<close> block (lines 17 to 21). The guard \<open>!localfilepath\<close> holds
  for an absent argument (\<open>undefined\<close> or \<open>null\<close>, here \<open>None\<close>) and for the empty
  string. Then the upload with \<open>resource_type "auto"\<close>, the log line, and the return of
  the response. A rejected upload leaves the block as \<open>Thrown\<close>. \<open>None\<close> as a returned
  value is \<open>null\<close>.
\<close>

definition try_block ::
  "uploader \<Rightarrow> string option \<Rightarrow> world \<Rightarrow> upload_response option completion \<times> world" where
  "try_block upload localfilepath w =
     (case localfilepath of
        None \<Rightarrow> (Returned None, w)
      | Some p \<Rightarrow>
          if p = [] then (Returned None, w)
          else
            let w1 = emit (Upload p \<lparr>resource_type = ''auto''\<rparr>) w
            in (case upload p \<lparr>resource_type = ''auto''\<rparr> of
                  Inl error \<Rightarrow> (Thrown error, w1)
                | Inr response \<Rightarrow>
                    (Returned (Some response),
                     emit (ConsoleLog ''File Uploaded successfully'' (url response)) w1)))"

text \<open>
  The \<open>catch\<close> block (lines 23 to 27): \<open>fs.unlinkSync(localfilepath)\<close>, then
  \<open>return null\<close>. An exception of \<open>unlinkSync\<close> is not caught by anything.
\<close>

definition catch_block ::
  "string option \<Rightarrow> world \<Rightarrow> upload_response option completion \<times> world" where
  "catch_block localfilepath w =
     (case unlinkSync localfilepath w of
        (Thrown e, w') \<Rightarrow> (Thrown e, w')
      | (Returned _, w') \<Rightarrow> (Returned None, w'))"

text \<open>\<open>uploadToCloudinary\<close> (lines 15 to 28): the \<open>try\<close> block, and the \<open>catch\<close> block
  when the \<open>try\<close> block threw.\<close>

definition uploadToCloudinary ::
  "uploader \<Rightarrow> string option \<Rightarrow> world \<Rightarrow> upload_response option completion \<times> world" where
  "uploadToCloudinary upload localfilepath w =
     (case try_block upload localfilepath w of
        (Thrown error, w1) \<Rightarrow> catch_block localfilepath w1
      | (Returned r, w1) \<Rightarrow> (Returned r, w1))"

text \<open>How many times an invocation deleted a path, and how many uploads it started.\<close>

definition unlinks_of :: "string \<Rightarrow> effect list \<Rightarrow> nat" where
  "unlinks_of path es = length (filter (\<lambda>e. e = Unlink path) es)"

fun is_Upload :: "effect \<Rightarrow> bool" where
  "is_Upload (Upload _ _) = True"
| "is_Upload _ = False"

definition uploads_of :: "effect list \<Rightarrow> effect list" where
  "uploads_of es = filter is_Upload es"

section \<open>utils/ApiResponse.js\<close>

text \<open>
  The object the constructor builds. The status code is an integer (an HTTP status); the
  payload is of any type.
\<close>

record 'd api_response =
  data :: 'd
  statuscode :: int
  message :: string
  success :: bool

text \<open>
  \<open>constructor(statuscode, data, message = "success")\<close>: an omitted third argument
  (\<open>None\<close>) takes the default.
\<close>

definition ApiResponse :: "int \<Rightarrow> 'd \<Rightarrow> string option \<Rightarrow> 'd api_response" where
  "ApiResponse sc d msg =
     \<lparr>data = d,
      statuscode = sc,
      message = (case msg of None \<Rightarrow> ''success'' | Some m \<Rightarrow> m),
      success = (sc < 400)\<rparr>"

section \<open>The user model\<close>

text \<open>
  A user document: the fields of the schema, \<open>this.id\<close>, and the set of paths that
  Mongoose tracks as modified since the last save.
\<close>

record user =
  id_field :: string
  username :: string
  email :: string
  fullname :: string
  avatar :: string
  coverImage :: "string option"
  watchHistory :: "string list"
  password :: string
  refreshToken :: "string option"
  modifiedPaths :: "string set"

definition isModified :: "user \<Rightarrow> string \<Rightarrow> bool" where
  "isModified this path = (path \<in> modifiedPaths this)"

text \<open>\<open>bcrypt.hash(data, rounds)\<close>, opaque.\<close>

type_synonym bcrypt_hash = "string \<Rightarrow> nat \<Rightarrow> string"

text \<open>What the hook does besides writing the field: calls of \<open>bcrypt.hash\<close> and of \<open>next\<close>.\<close>

datatype hook_effect = BcryptHash string nat | Next

text \<open>
  \<open>userSchema.pre("save", ...)\<close>: returns through \<open>next()\<close> at once when the password
  is not modified, otherwise replaces the password by its hash with cost 10 and calls
  \<open>next()\<close>.
\<close>

definition pre_save :: "bcrypt_hash \<Rightarrow> user \<Rightarrow> user \<times> hook_effect list" where
  "pre_save hash this =
     (if \<not> isModified this ''password'' then (this, [Next])
      else (this\<lparr>password := hash (password this) 10\<rparr>,
            [BcryptHash (password this) 10, Next]))"

text \<open>
  \<open>jwt.sign(payload, secret, options)\<close>, opaque: the payload is an object of string
  fields, the secret and the expiry come from the process environment and may be unset.
\<close>

type_synonym payload = "(string \<times> string) list"

record sign_options =
  expiresIn :: "string option"

type_synonym jwt_sign = "payload \<Rightarrow> string option \<Rightarrow> sign_options \<Rightarrow> js_error + string"

record process_env =
  ACCESS_TOKEN_SECRET :: "string option"
  ACCESS_TOKEN_EXPIRY :: "string option"
  REFRESH_TOKEN_SECRET :: "string option"
  REFRESH_TOKEN_EXPIRY :: "string option"

definition generateAccessToken :: "jwt_sign \<Rightarrow> process_env \<Rightarrow> user \<Rightarrow> js_error + string" where
  "generateAccessToken sign env this =
     sign [(''_id'', id_field this),
           (''username'', username this),
           (''email'', email this),
           (''fullname'', fullname this)]
          (ACCESS_TOKEN_SECRET env)
          \<lparr>expiresIn = ACCESS_TOKEN_EXPIRY env\<rparr>"

definition generateRefreshToken :: "jwt_sign \<Rightarrow> process_env \<Rightarrow> user \<Rightarrow> js_error + string" where
  "generateRefreshToken sign env this =
     sign [(''_id'', id_field this)]
          (REFRESH_TOKEN_SECRET env)
          \<lparr>expiresIn = REFRESH_TOKEN_EXPIRY env\<rparr>"

section \<open>Specification vocabulary and fixtures\<close>

text \<open>
  The inputs on which the \<open>catch\<close> block is reached with no file at the path: a
  non-empty path, a rejected upload, and no such file on disk.
\<close>

definition cleanup_target_missing :: "uploader \<Rightarrow> string option \<Rightarrow> world \<Rightarrow> bool" where
  "cleanup_target_missing upload localfilepath w =
     (case localfilepath of
        None \<Rightarrow> False
      | Some p \<Rightarrow> p \<noteq> [] \<and> isl (upload p \<lparr>resource_type = ''auto''\<rparr>) \<and> p \<notin> files w)"

text \<open>The calls of \<open>bcrypt.hash\<close> among a hook's effects.\<close>

definition hash_calls :: "hook_effect list \<Rightarrow> hook_effect list" where
  "hash_calls es = filter (\<lambda>e. e \<noteq> Next) es"

text \<open>
  A store that accepts every upload with the response of the specification's example
  scenario, and a fault-injected store that rejects every upload.
\<close>

definition stub_store :: uploader where
  "stub_store path options =
     Inr \<lparr>url = ''https://cdn.example/avatar123.png'', public_id = ''avatar123''\<rparr>"

definition rejecting_store :: uploader where
  "rejecting_store path options = Inl (StoreError ''network error'')"

text \<open>
  A store that accepts an upload only when asked for \<open>resource_type "auto"\<close> and
  rejects every other resource type.
\<close>

definition auto_only_store :: uploader where
  "auto_only_store path options =
     (if resource_type options = ''auto''
      then Inr \<lparr>url = ''https://cdn.example/avatar123.png'', public_id = ''avatar123''\<rparr>
      else Inl (StoreError ''unsupported resource type''))"

text \<open>A disk holding the staged file of the example scenario, and an empty disk.\<close>

definition staged_disk :: world where
  "staged_disk = \<lparr>files = {''./tmp/avatar123.png''}, trace = []\<rparr>"

definition empty_disk :: world where
  "empty_disk = \<lparr>files = {}, trace = []\<rparr>"

text \<open>A stand-in for \<open>bcrypt.hash\<close> and two user documents for the hook.\<close>

definition stub_hash :: bcrypt_hash where
  "stub_hash pw rounds = ''$2b$'' @ rev pw"

definition new_user :: user where
  "new_user =
     \<lparr>id_field = ''65a1'', username = ''asha'', email = ''asha@example.org'',
      fullname = ''Asha Rao'', avatar = ''https://cdn.example/a.png'', coverImage = None,
      watchHistory = [], password = ''secret1'', refreshToken = None,
      modifiedPaths = {''username'', ''password''}\<rparr>"

definition saved_user :: user where
  "saved_user =
     \<lparr>id_field = ''65a1'', username = ''asha'', email = ''asha@example.org'',
      fullname = ''Asha Rao'', avatar = ''https://cdn.example/a.png'', coverImage = None,
      watchHistory = [], password = ''$2b$1terces'', refreshToken = None,
      modifiedPaths = {''avatar''}\<rparr>"

section \<open>utils/cloudinary.js: the three paths through the function\<close>

lemma upload_resolved:
  assumes "p \<noteq> []" and "upload p \<lparr>resource_type = ''auto''\<rparr> = Inr r"
  shows "uploadToCloudinary upload (Some p) w =
    (Returned (Some r),
     w\<lparr>trace := trace w @ [Upload p \<lparr>resource_type = ''auto''\<rparr>,
                             ConsoleLog ''File Uploaded successfully'' (url r)]\<rparr>)"
  using assms by (simp add: uploadToCloudinary_def try_block_def emit_def)

lemma upload_rejected_file_present:
  assumes "p \<noteq> []" and "upload p \<lparr>resource_type = ''auto''\<rparr> = Inl e" and "p \<in> files w"
  shows "uploadToCloudinary upload (Some p) w =
    (Returned None,
     w\<lparr>trace := trace w @ [Upload p \<lparr>resource_type = ''auto''\<rparr>, Unlink p],
       files := files w - {p}\<rparr>)"
  using assms
  by (simp add: uploadToCloudinary_def try_block_def catch_block_def unlinkSync_def emit_def)

lemma upload_rejected_file_absent:
  assumes "p \<noteq> []" and "upload p \<lparr>resource_type = ''auto''\<rparr> = Inl e" and "p \<notin> files w"
  shows "uploadToCloudinary upload (Some p) w =
    (Thrown (ENOENT p),
     w\<lparr>trace := trace w @ [Upload p \<lparr>resource_type = ''auto''\<rparr>, Unlink p]\<rparr>)"
  using assms
  by (simp add: uploadToCloudinary_def try_block_def catch_block_def unlinkSync_def emit_def)

lemma upload_skipped:
  assumes "localfilepath = None \<or> localfilepath = Some []"
  shows "uploadToCloudinary upload localfilepath w = (Returned None, w)"
  using assms by (auto simp add: uploadToCloudinary_def try_block_def)

section \<open>Claims about the upload handoff\<close>

text \<open>
  C1. The claim: when the upload succeeds, the function deletes the local file and then
  returns the store's result, so that the file no longer exists afterwards. The code at
  the example scenario (the staged file \<open>./tmp/avatar123.png\<close> on disk, a store that
  accepts it): the store's result is returned unchanged, but the only actions are the
  upload and the log line, and the file is still on disk.
\<close>

theorem C1_success_leaves_local_file:
  "uploadToCloudinary stub_store (Some ''./tmp/avatar123.png'') staged_disk =
     (Returned (Some \<lparr>url = ''https://cdn.example/avatar123.png'', public_id = ''avatar123''\<rparr>),
      \<lparr>files = {''./tmp/avatar123.png''},
       trace = [Upload ''./tmp/avatar123.png'' \<lparr>resource_type = ''auto''\<rparr>,
                ConsoleLog ''File Uploaded successfully'' ''https://cdn.example/avatar123.png'']\<rparr>)"
  by (simp add: uploadToCloudinary_def try_block_def emit_def stub_store_def staged_disk_def)

text \<open>
  C2. The claim: every invocation with a non-empty path performs exactly one deletion of
  that path, on the success branch and on the failure branch alike. The code at the
  example scenario: on the success branch the number of deletions is zero and the staged
  file survives the call; on the failure branch (the rejecting store) it is one.
\<close>

theorem C2_success_performs_no_deletion:
  "unlinks_of ''./tmp/avatar123.png''
     (trace (snd (uploadToCloudinary stub_store (Some ''./tmp/avatar123.png'') staged_disk))) = 0
   \<and> ''./tmp/avatar123.png''
       \<in> files (snd (uploadToCloudinary stub_store (Some ''./tmp/avatar123.png'') staged_disk))
   \<and> unlinks_of ''./tmp/avatar123.png''
     (trace (snd (uploadToCloudinary rejecting_store (Some ''./tmp/avatar123.png'') staged_disk))) = 1"
  by (simp add: uploadToCloudinary_def try_block_def catch_block_def unlinkSync_def emit_def
      stub_store_def rejecting_store_def staged_disk_def unlinks_of_def)

text \<open>
  C3. For every non-empty path whose upload the store rejects, with the local file on
  disk: the function returns \<open>null\<close> (the store's error is swallowed, nothing is
  thrown), the local file is deleted and no other file is touched, and the actions are
  the one upload followed by the one deletion.
\<close>

theorem C3_failure_deletes_and_returns_null:
  assumes "p \<noteq> []"
    and "upload p \<lparr>resource_type = ''auto''\<rparr> = Inl e"
    and "p \<in> files w"
  shows "fst (uploadToCloudinary upload (Some p) w) = Returned None
    \<and> p \<notin> files (snd (uploadToCloudinary upload (Some p) w))
    \<and> files (snd (uploadToCloudinary upload (Some p) w)) = files w - {p}
    \<and> trace (snd (uploadToCloudinary upload (Some p) w)) =
        trace w @ [Upload p \<lparr>resource_type = ''auto''\<rparr>, Unlink p]"
  using assms by (simp add: upload_rejected_file_present)

theorem C3_witness:
  "''./tmp/avatar123.png'' \<noteq> []
   \<and> rejecting_store ''./tmp/avatar123.png'' \<lparr>resource_type = ''auto''\<rparr>
       = Inl (StoreError ''network error'')
   \<and> ''./tmp/avatar123.png'' \<in> files staged_disk
   \<and> fst (uploadToCloudinary rejecting_store (Some ''./tmp/avatar123.png'') staged_disk)
       = Returned None
   \<and> files (snd (uploadToCloudinary rejecting_store (Some ''./tmp/avatar123.png'') staged_disk))
       = {}"
proof -
  have nonempty: "''./tmp/avatar123.png'' \<noteq> []" by simp
  have rejects: "rejecting_store ''./tmp/avatar123.png'' \<lparr>resource_type = ''auto''\<rparr>
      = Inl (StoreError ''network error'')"
    by (simp add: rejecting_store_def)
  have present: "''./tmp/avatar123.png'' \<in> files staged_disk"
    by (simp add: staged_disk_def)
  have gone: "files staged_disk - {''./tmp/avatar123.png''} = {}"
    by (simp add: staged_disk_def)
  from C3_failure_deletes_and_returns_null
      [where p = "''./tmp/avatar123.png''" and upload = rejecting_store and w = staged_disk,
        OF nonempty rejects present] gone
  show ?thesis using rejects present by simp
qed

text \<open>
  C4. For an absent or empty path the function returns \<open>null\<close> and the world is
  unchanged: nothing is thrown, and neither an upload nor a deletion is performed.
\<close>

theorem C4_empty_path_is_noop:
  assumes "localfilepath = None \<or> localfilepath = Some []"
  shows "uploadToCloudinary upload localfilepath w = (Returned None, w)"
  using assms by (rule upload_skipped)

theorem C4_witness:
  "uploadToCloudinary stub_store None staged_disk = (Returned None, staged_disk)
   \<and> uploadToCloudinary rejecting_store (Some []) staged_disk = (Returned None, staged_disk)"
  using C4_empty_path_is_noop [of None stub_store staged_disk]
    C4_empty_path_is_noop [of "Some []" rejecting_store staged_disk]
  by simp

text \<open>
  C5, as stated (no input makes the function surface an exception), fails: with a
  rejected upload and no file at the path, the deletion in the \<open>catch\<close> block throws
  \<open>ENOENT\<close>, and that exception is the outcome of the call.
\<close>

theorem C5_counterexample:
  "fst (uploadToCloudinary rejecting_store (Some ''./tmp/avatar123.png'') empty_disk)
     = Thrown (ENOENT ''./tmp/avatar123.png'')"
  by (simp add: uploadToCloudinary_def try_block_def catch_block_def unlinkSync_def emit_def
      rejecting_store_def empty_disk_def)

text \<open>
  C5, amended. On every input other than those where the \<open>catch\<close> block finds no file
  at the path, the function surfaces no exception: it returns a value, and that value is
  \<open>null\<close> unless the upload succeeded.
\<close>

theorem C5_no_exception_unless_cleanup_target_missing:
  assumes "\<not> cleanup_target_missing upload localfilepath w"
  shows "\<exists>r. fst (uploadToCloudinary upload localfilepath w) = Returned r
    \<and> (r = None \<or> (\<exists>p response. localfilepath = Some p
          \<and> upload p \<lparr>resource_type = ''auto''\<rparr> = Inr response \<and> r = Some response))"
proof (cases localfilepath)
  case None
  then show ?thesis by (simp add: upload_skipped)
next
  case (Some p)
  show ?thesis
  proof (cases "p = []")
    case True
    with Some show ?thesis by (simp add: upload_skipped)
  next
    case False
    show ?thesis
    proof (cases "upload p \<lparr>resource_type = ''auto''\<rparr>")
      case (Inl e)
      with assms Some False have "p \<in> files w"
        by (simp add: cleanup_target_missing_def)
      with Some False Inl show ?thesis
        by (simp add: upload_rejected_file_present)
    next
      case (Inr r)
      with Some False show ?thesis
        by (simp add: upload_resolved)
    qed
  qed
qed

theorem C5_witness:
  "\<not> cleanup_target_missing rejecting_store (Some ''./tmp/avatar123.png'') staged_disk
   \<and> (\<exists>r. fst (uploadToCloudinary rejecting_store (Some ''./tmp/avatar123.png'') staged_disk)
         = Returned r)"
proof -
  have ok: "\<not> cleanup_target_missing rejecting_store (Some ''./tmp/avatar123.png'') staged_disk"
    by (simp add: cleanup_target_missing_def staged_disk_def)
  from C5_no_exception_unless_cleanup_target_missing [OF ok] ok
  show ?thesis by blast
qed

text \<open>
  C6. For every non-empty path, one invocation invokes the store's upload exactly once,
  for that path and with \<open>resource_type "auto"\<close>, and never again after a failure:
  \<^item> the uploads in the trace after the call are those before it and this one;
  \<^item> when that one call resolves, its response is the result of the function;
  \<^item> when that one call is rejected, the result is never a response: it is \<open>null\<close>, or
    the deletion's error when no file is at the path;
  \<^item> the store is consulted nowhere else: stores that agree on this one call (whatever
    they answer for other paths or other resource types) give the same result and world.
\<close>

theorem C6_exactly_one_upload:
  assumes "p \<noteq> []"
  shows "uploads_of (trace (snd (uploadToCloudinary upload (Some p) w))) =
      uploads_of (trace w) @ [Upload p \<lparr>resource_type = ''auto''\<rparr>]
    \<and> (\<forall>r. upload p \<lparr>resource_type = ''auto''\<rparr> = Inr r \<longrightarrow>
          fst (uploadToCloudinary upload (Some p) w) = Returned (Some r))
    \<and> (\<forall>e. upload p \<lparr>resource_type = ''auto''\<rparr> = Inl e \<longrightarrow>
          fst (uploadToCloudinary upload (Some p) w) =
            (if p \<in> files w then Returned None else Thrown (ENOENT p)))
    \<and> (\<forall>upload'. upload' p \<lparr>resource_type = ''auto''\<rparr> = upload p \<lparr>resource_type = ''auto''\<rparr> \<longrightarrow>
          uploadToCloudinary upload' (Some p) w = uploadToCloudinary upload (Some p) w)"
proof -
  have logged: "uploads_of (trace (snd (uploadToCloudinary upload (Some p) w))) =
      uploads_of (trace w) @ [Upload p \<lparr>resource_type = ''auto''\<rparr>]"
  proof (cases "upload p \<lparr>resource_type = ''auto''\<rparr>")
    case (Inl e)
    show ?thesis
    proof (cases "p \<in> files w")
      case True
      with assms Inl show ?thesis
        by (simp add: upload_rejected_file_present uploads_of_def)
    next
      case False
      with assms Inl show ?thesis
        by (simp add: upload_rejected_file_absent uploads_of_def)
    qed
  next
    case (Inr r)
    with assms show ?thesis
      by (simp add: upload_resolved uploads_of_def)
  qed
  have resolved: "\<forall>r. upload p \<lparr>resource_type = ''auto''\<rparr> = Inr r \<longrightarrow>
      fst (uploadToCloudinary upload (Some p) w) = Returned (Some r)"
    using assms by (simp add: upload_resolved)
  have rejected: "\<forall>e. upload p \<lparr>resource_type = ''auto''\<rparr> = Inl e \<longrightarrow>
      fst (uploadToCloudinary upload (Some p) w) =
        (if p \<in> files w then Returned None else Thrown (ENOENT p))"
  proof (intro allI impI)
    fix e
    assume failed: "upload p \<lparr>resource_type = ''auto''\<rparr> = Inl e"
    show "fst (uploadToCloudinary upload (Some p) w) =
        (if p \<in> files w then Returned None else Thrown (ENOENT p))"
    proof (cases "p \<in> files w")
      case True
      with assms failed show ?thesis by (simp add: upload_rejected_file_present)
    next
      case False
      with assms failed show ?thesis by (simp add: upload_rejected_file_absent)
    qed
  qed
  have only_here: "\<forall>upload'. upload' p \<lparr>resource_type = ''auto''\<rparr> = upload p \<lparr>resource_type = ''auto''\<rparr> \<longrightarrow>
      uploadToCloudinary upload' (Some p) w = uploadToCloudinary upload (Some p) w"
    by (simp add: uploadToCloudinary_def try_block_def)
  show ?thesis by (intro conjI logged resolved rejected only_here)
qed

theorem C6_witness:
  "''./tmp/avatar123.png'' \<noteq> []
   \<and> uploads_of (trace (snd (uploadToCloudinary rejecting_store (Some ''./tmp/avatar123.png'')
        staged_disk))) = [Upload ''./tmp/avatar123.png'' \<lparr>resource_type = ''auto''\<rparr>]
   \<and> fst (uploadToCloudinary rejecting_store (Some ''./tmp/avatar123.png'') staged_disk)
       = Returned None
   \<and> fst (uploadToCloudinary rejecting_store (Some ''./tmp/avatar123.png'') empty_disk)
       = Thrown (ENOENT ''./tmp/avatar123.png'')
   \<and> fst (uploadToCloudinary stub_store (Some ''./tmp/avatar123.png'') staged_disk)
       = Returned (Some \<lparr>url = ''https://cdn.example/avatar123.png'', public_id = ''avatar123''\<rparr>)
   \<and> uploadToCloudinary auto_only_store (Some ''./tmp/avatar123.png'') staged_disk
       = uploadToCloudinary stub_store (Some ''./tmp/avatar123.png'') staged_disk"
proof -
  have nonempty: "''./tmp/avatar123.png'' \<noteq> []" by simp
  have before: "uploads_of (trace staged_disk) = []"
    by (simp add: uploads_of_def staged_disk_def)
  have rejects: "rejecting_store ''./tmp/avatar123.png'' \<lparr>resource_type = ''auto''\<rparr>
      = Inl (StoreError ''network error'')"
    by (simp add: rejecting_store_def)
  have resolves: "stub_store ''./tmp/avatar123.png'' \<lparr>resource_type = ''auto''\<rparr>
      = Inr \<lparr>url = ''https://cdn.example/avatar123.png'', public_id = ''avatar123''\<rparr>"
    by (simp add: stub_store_def)
  have agree: "auto_only_store ''./tmp/avatar123.png'' \<lparr>resource_type = ''auto''\<rparr>
      = stub_store ''./tmp/avatar123.png'' \<lparr>resource_type = ''auto''\<rparr>"
    by (simp add: auto_only_store_def stub_store_def)
  have present: "''./tmp/avatar123.png'' \<in> files staged_disk"
    by (simp add: staged_disk_def)
  have absent: "''./tmp/avatar123.png'' \<notin> files empty_disk"
    by (simp add: empty_disk_def)
  note on_staged = C6_exactly_one_upload [OF nonempty, of rejecting_store staged_disk]
  note on_empty = C6_exactly_one_upload [OF nonempty, of rejecting_store empty_disk]
  note accepted = C6_exactly_one_upload [OF nonempty, of stub_store staged_disk]
  have one_call: "uploads_of (trace (snd (uploadToCloudinary rejecting_store
      (Some ''./tmp/avatar123.png'') staged_disk)))
      = [Upload ''./tmp/avatar123.png'' \<lparr>resource_type = ''auto''\<rparr>]"
    using on_staged [THEN conjunct1] before by simp
  have null: "fst (uploadToCloudinary rejecting_store (Some ''./tmp/avatar123.png'') staged_disk)
      = Returned None"
    using on_staged [THEN conjunct2, THEN conjunct2, THEN conjunct1, rule_format, OF rejects]
      present by simp
  have thrown: "fst (uploadToCloudinary rejecting_store (Some ''./tmp/avatar123.png'') empty_disk)
      = Thrown (ENOENT ''./tmp/avatar123.png'')"
    using on_empty [THEN conjunct2, THEN conjunct2, THEN conjunct1, rule_format, OF rejects]
      absent by simp
  have response: "fst (uploadToCloudinary stub_store (Some ''./tmp/avatar123.png'') staged_disk)
      = Returned (Some \<lparr>url = ''https://cdn.example/avatar123.png'', public_id = ''avatar123''\<rparr>)"
    using accepted [THEN conjunct2, THEN conjunct1, rule_format, OF resolves] .
  have same: "uploadToCloudinary auto_only_store (Some ''./tmp/avatar123.png'') staged_disk
      = uploadToCloudinary stub_store (Some ''./tmp/avatar123.png'') staged_disk"
    using accepted [THEN conjunct2, THEN conjunct2, THEN conjunct2, THEN spec,
        of auto_only_store] agree by simp
  show ?thesis by (intro conjI nonempty one_call null thrown response same)
qed

text \<open>
  C7. When the \<open>catch\<close> block runs (non-empty path, rejected upload) and no file is at
  the path, the deletion's \<open>ENOENT\<close> error is the outcome of the call and the disk is
  as before. Deletion is not idempotent: a second invocation on the same path, after a
  first one whose upload was rejected, always ends in that error.
\<close>

theorem C7_missing_file_throws:
  assumes "p \<noteq> []"
    and "upload p \<lparr>resource_type = ''auto''\<rparr> = Inl e"
    and "p \<notin> files w"
  shows "fst (uploadToCloudinary upload (Some p) w) = Thrown (ENOENT p)
    \<and> files (snd (uploadToCloudinary upload (Some p) w)) = files w
    \<and> fst (unlinkSync (Some p) w) = Thrown (ENOENT p)
    \<and> fst (uploadToCloudinary upload (Some p) (snd (uploadToCloudinary upload (Some p) w0)))
        = Thrown (ENOENT p)"
proof -
  have first: "uploadToCloudinary upload (Some p) w =
      (Thrown (ENOENT p),
       w\<lparr>trace := trace w @ [Upload p \<lparr>resource_type = ''auto''\<rparr>, Unlink p]\<rparr>)"
    using assms by (simp add: upload_rejected_file_absent)
  have unlink: "fst (unlinkSync (Some p) w) = Thrown (ENOENT p)"
    using assms(3) by (simp add: unlinkSync_def)
  have after: "p \<notin> files (snd (uploadToCloudinary upload (Some p) w0))"
  proof (cases "p \<in> files w0")
    case True
    with assms(1,2) show ?thesis by (simp add: upload_rejected_file_present)
  next
    case False
    with assms(1,2) show ?thesis by (simp add: upload_rejected_file_absent)
  qed
  have second: "fst (uploadToCloudinary upload (Some p)
      (snd (uploadToCloudinary upload (Some p) w0))) = Thrown (ENOENT p)"
    using assms(1,2) after by (simp add: upload_rejected_file_absent)
  from first unlink second show ?thesis by simp
qed

theorem C7_witness:
  "''./tmp/avatar123.png'' \<noteq> []
   \<and> ''./tmp/avatar123.png'' \<notin> files empty_disk
   \<and> fst (uploadToCloudinary rejecting_store (Some ''./tmp/avatar123.png'') empty_disk)
       = Thrown (ENOENT ''./tmp/avatar123.png'')
   \<and> fst (uploadToCloudinary rejecting_store (Some ''./tmp/avatar123.png'')
         (snd (uploadToCloudinary rejecting_store (Some ''./tmp/avatar123.png'') staged_disk)))
       = Thrown (ENOENT ''./tmp/avatar123.png'')"
proof -
  have nonempty: "''./tmp/avatar123.png'' \<noteq> []" by simp
  have rejects: "rejecting_store ''./tmp/avatar123.png'' \<lparr>resource_type = ''auto''\<rparr>
      = Inl (StoreError ''network error'')"
    by (simp add: rejecting_store_def)
  have absent: "''./tmp/avatar123.png'' \<notin> files empty_disk"
    by (simp add: empty_disk_def)
  from C7_missing_file_throws
      [where p = "''./tmp/avatar123.png''" and upload = rejecting_store and w = empty_disk
        and ?w0.0 = staged_disk, OF nonempty rejects absent] absent
  show ?thesis by simp
qed

section \<open>Claims about the response object and the user model\<close>

text \<open>
  C8. The constructed object holds the status code and the data as given, the message as
  given or \<open>"success"\<close> when it was omitted, and its success flag is true exactly when
  the status code is below 400.
\<close>

theorem C8_ApiResponse_fields:
  "data (ApiResponse sc d msg) = d
   \<and> statuscode (ApiResponse sc d msg) = sc
   \<and> message (ApiResponse sc d (Some m)) = m
   \<and> message (ApiResponse sc d None) = ''success''
   \<and> success (ApiResponse sc d msg) = (sc < 400)"
  by (simp add: ApiResponse_def)

text \<open>
  C9. The pre-save hook calls \<open>bcrypt.hash\<close> exactly when the password is modified, and
  then once, on the current password with cost 10, storing the result as the password
  and leaving every other field alone. When the password is not modified the document
  is returned as it was, so a stored hash is not hashed again.
\<close>

theorem C9_pre_save_hashes_iff_modified:
  "(hash_calls (snd (pre_save hash this)) \<noteq> []) = isModified this ''password''
   \<and> (isModified this ''password'' \<longrightarrow>
        fst (pre_save hash this) = this\<lparr>password := hash (password this) 10\<rparr>
        \<and> hash_calls (snd (pre_save hash this)) = [BcryptHash (password this) 10])
   \<and> (\<not> isModified this ''password'' \<longrightarrow>
        fst (pre_save hash this) = this
        \<and> password (fst (pre_save hash this)) = password this)"
  by (simp add: pre_save_def hash_calls_def)

theorem C9_witness:
  "isModified new_user ''password''
   \<and> password (fst (pre_save stub_hash new_user)) = ''$2b$1terces''
   \<and> hash_calls (snd (pre_save stub_hash new_user)) = [BcryptHash ''secret1'' 10]
   \<and> \<not> isModified saved_user ''password''
   \<and> password (fst (pre_save stub_hash saved_user)) = ''$2b$1terces''
   \<and> hash_calls (snd (pre_save stub_hash saved_user)) = []"
proof -
  have modified: "isModified new_user ''password''"
    by (simp add: isModified_def new_user_def)
  have unmodified: "\<not> isModified saved_user ''password''"
    by (simp add: isModified_def saved_user_def)
  have hashed: "stub_hash (password new_user) 10 = ''$2b$1terces''"
    by (simp add: stub_hash_def new_user_def)
  have stored: "password saved_user = ''$2b$1terces''"
    by (simp add: saved_user_def)
  from C9_pre_save_hashes_iff_modified [of stub_hash new_user]
    C9_pre_save_hashes_iff_modified [of stub_hash saved_user]
    modified unmodified hashed stored
  show ?thesis by (simp add: new_user_def)
qed

text \<open>
  C10. The refresh token is the signature of a payload holding the \<open>_id\<close> alone: a
  user whose username, email and fullname are replaced by any others gets the same
  refresh token, for every signing function and environment. The access token is the
  signature of a payload holding \<open>_id\<close>, username, email and fullname.
\<close>

theorem C10_refresh_token_depends_on_id_only:
  "generateRefreshToken sign env this =
     sign [(''_id'', id_field this)] (REFRESH_TOKEN_SECRET env)
       \<lparr>expiresIn = REFRESH_TOKEN_EXPIRY env\<rparr>
   \<and> generateRefreshToken sign env (this\<lparr>username := n, email := m, fullname := f\<rparr>)
       = generateRefreshToken sign env this
   \<and> generateAccessToken sign env (this\<lparr>username := n, email := m, fullname := f\<rparr>) =
     sign [(''_id'', id_field this), (''username'', n), (''email'', m), (''fullname'', f)]
       (ACCESS_TOKEN_SECRET env) \<lparr>expiresIn = ACCESS_TOKEN_EXPIRY env\<rparr>"
  by (simp add: generateRefreshToken_def generateAccessToken_def)

end
